theory Spec2Isabelle
  imports Complex_Main "HOL-Library.Sublist"
begin

section \<open>Strings\<close>

text \<open>
  A Python \<open>str\<close> is a sequence of Unicode code points, modelled as a list of natural
  numbers. \<open>lit\<close> gives the \<open>str\<close> of a literal of the program text.
\<close>

type_synonym str = "nat list"

definition lit :: "string \<Rightarrow> str" where
  "lit s = map of_char s"

text \<open>
  \<open>str.lower()\<close> follows the Unicode case tables, which are not part of the program, so
  it is a parameter \<open>L\<close> of everything that calls it. The type \<open>str_lower\<close> keeps two facts
  of it: it maps the empty string, and no other, to the empty string; and on a string of
  ASCII characters it turns \<open>A\<close>..\<open>Z\<close> into \<open>a\<close>..\<open>z\<close> and leaves the rest alone. Beyond
  ASCII it is free: it may fold any further capitals and may change the length.
  \<open>lower L s\<close> is \<open>s.lower()\<close>.
\<close>

definition ascii_lower :: "nat \<Rightarrow> nat" where
  "ascii_lower c = (if 65 \<le> c \<and> c \<le> 90 then c + 32 else c)"

typedef str_lower =
  "{f :: str \<Rightarrow> str.
      (\<forall>s. f s = [] \<longleftrightarrow> s = []) \<and> (\<forall>s. (\<forall>c\<in>set s. c < 128) \<longrightarrow> f s = map ascii_lower s)}"
  morphisms lower Abs_str_lower
  by (rule exI [of _ "map ascii_lower"]) simp

text \<open>
  One member of the type, for concrete runs: \<open>str.lower()\<close> as it acts on Latin-1 text.
  Besides the ASCII capitals it folds the capitals from U+00C0 to U+00DE, the
  multiplication sign U+00D7 apart.
\<close>

definition latin1_lower :: "nat \<Rightarrow> nat" where
  "latin1_lower c =
     (if (65 \<le> c \<and> c \<le> 90) \<or> (192 \<le> c \<and> c \<le> 222 \<and> c \<noteq> 215) then c + 32 else c)"

definition latin1_str_lower :: str_lower where
  "latin1_str_lower = Abs_str_lower (map latin1_lower)"

text \<open>
  \<open>sub in t\<close> on two strings: \<open>sub\<close> occurs in \<open>t\<close> as a contiguous block. The
  search tries every start position of \<open>t\<close> from the left.
\<close>

fun py_in :: "'a list \<Rightarrow> 'a list \<Rightarrow> bool" where
  "py_in sub [] = (sub = [])"
| "py_in sub (c # cs) = (prefix sub (c # cs) \<or> py_in sub cs)"

text \<open>\<open>sep.join(xs)\<close>.\<close>

fun join :: "'a list \<Rightarrow> 'a list list \<Rightarrow> 'a list" where
  "join sep [] = []"
| "join sep [x] = x"
| "join sep (x # y # ys) = x @ sep @ join sep (y # ys)"

section \<open>Exceptions\<close>

text \<open>
  A raised exception is either an instance of \<open>Exception\<close> (any of its subclasses, named
  by the string) or of a class outside it (\<open>KeyboardInterrupt\<close>, \<open>SystemExit\<close>);
  \<open>except Exception\<close> catches the first kind only. A call that may raise returns
  \<open>Inl\<close> of what it raised or \<open>Inr\<close> of its value.
\<close>

datatype raised = Exception string | BaseException string

section \<open>\<open>matches_desired\<close> (monitor.py, lines 155-167)\<close>

text \<open>
  The \<open>for\<close> loop over \<open>desired_list\<close>, with the list \<open>matches\<close> it appends to as an
  accumulator. \<open>if item and ...\<close> is the truthiness of a string: it is not empty.
\<close>

fun matches_loop :: "str_lower \<Rightarrow> str \<Rightarrow> str list \<Rightarrow> str list \<Rightarrow> str list" where
  "matches_loop L t [] matches = matches"
| "matches_loop L t (item # rest) matches =
     (if item \<noteq> [] \<and> py_in (lower L item) t
      then matches_loop L t rest (matches @ [item])
      else matches_loop L t rest matches)"

definition matches_desired :: "str_lower \<Rightarrow> str \<Rightarrow> str list \<Rightarrow> str list" where
  "matches_desired L text desired_list =
     (if text = [] then []
      else let t = lower L text in matches_loop L t desired_list [])"

section \<open>\<open>find_window_rect\<close> (monitor.py, lines 82-99) and the region choice of \<open>main\<close>\<close>

text \<open>
  A top-level window as the three \<open>win32gui\<close> calls of the callback see it; a window
  handle stands for its window. Each call may raise. The module \<open>win32gui\<close> is \<open>None\<close>
  when its import failed, and otherwise the top-level windows in the order
  \<open>EnumWindows\<close> visits them.
\<close>

record window =
  IsWindowVisible :: "raised + bool"
  GetWindowText :: "raised + str"
  GetWindowRect :: "raised + int \<times> int \<times> int \<times> int"

type_synonym win32gui = "window list option"

text \<open>
  A region is a Python dict from key to pixel coordinate, kept as an association list.
  What the program does to the outside is recorded as a list of events: a query of the
  window enumeration, and a call of \<open>notify\<close> with its title and message. Log lines are
  not recorded.
\<close>

type_synonym region = "(string \<times> int) list"

datatype event = WindowQuery | Notification str str

text \<open>
  The callback \<open>enum\<close>, with the list \<open>found\<close> it appends to passed through. It has no
  handler, so what a call raises leaves the callback.
\<close>

definition enum_callback ::
  "str_lower \<Rightarrow> str \<Rightarrow> window \<Rightarrow> (int \<times> int \<times> int \<times> int) list
     \<Rightarrow> raised + (int \<times> int \<times> int \<times> int) list" where
  "enum_callback L title_substring hwnd found =
     (case IsWindowVisible hwnd of
        Inl e \<Rightarrow> Inl e
      | Inr visible \<Rightarrow>
          if visible then
            (case GetWindowText hwnd of
               Inl e \<Rightarrow> Inl e
             | Inr title \<Rightarrow>
                 if title \<noteq> [] \<and> py_in (lower L title_substring) (lower L title)
                 then (case GetWindowRect hwnd of
                         Inl e \<Rightarrow> Inl e
                       | Inr rect \<Rightarrow> Inr (found @ [rect]))
                 else Inr found)
          else Inr found)"

text \<open>\<open>EnumWindows\<close> stops at the first window on which the callback raises, and raises that.\<close>

fun EnumWindows :: "(window \<Rightarrow> 's \<Rightarrow> raised + 's) \<Rightarrow> window list \<Rightarrow> 's \<Rightarrow> raised + 's" where
  "EnumWindows callback [] s = Inr s"
| "EnumWindows callback (hwnd # rest) s =
     (case callback hwnd s of
        Inl e \<Rightarrow> Inl e
      | Inr s' \<Rightarrow> EnumWindows callback rest s')"

definition find_window_rect ::
  "str_lower \<Rightarrow> win32gui \<Rightarrow> str \<Rightarrow> (raised + region option) \<times> event list" where
  "find_window_rect L win32gui title_substring =
     (case win32gui of
        None \<Rightarrow> (Inr None, [])
      | Some windows \<Rightarrow>
          (case EnumWindows (enum_callback L title_substring) windows [] of
             Inl e \<Rightarrow> (Inl e, [WindowQuery])
           | Inr found \<Rightarrow>
               (case found of
                  (left', top', right', bottom') # _ \<Rightarrow>
                    (Inr (Some [(''left'', left'), (''top'', top'),
                                (''width'', right' - left'), (''height'', bottom' - top')]),
                     [WindowQuery])
                | [] \<Rightarrow> (Inr None, [WindowQuery]))))"

text \<open>
  Lines 202-206 of \<open>main\<close>. \<open>region_cfg\<close> is \<open>cfg.get("monitor_region")\<close>: \<open>None\<close> when
  the key is absent. \<open>if region_cfg:\<close> is the truthiness of a dict: present and not empty.
\<close>

definition dict_truthy :: "region option \<Rightarrow> bool" where
  "dict_truthy d = (case d of None \<Rightarrow> False | Some kvs \<Rightarrow> kvs \<noteq> [])"

definition main_resolve_region ::
  "str_lower \<Rightarrow> region option \<Rightarrow> str \<Rightarrow> win32gui \<Rightarrow> (raised + region option) \<times> event list" where
  "main_resolve_region L region_cfg window_title win32gui =
     (if dict_truthy region_cfg then (Inr region_cfg, [])
      else find_window_rect L win32gui window_title)"




text \<open>
  Six windows for concrete runs of the search; the title of the fifth is \<open>CAF\<close>
  followed by U+00C9, and the last one is closed before its rectangle is read.
\<close>

definition game_window :: window where
  "game_window =
     \<lparr>IsWindowVisible = Inr True, GetWindowText = Inr (lit ''Path of Exile''),
      GetWindowRect = Inr (10, 20, 810, 620)\<rparr>"






section \<open>\<open>preprocess_for_ocr\<close> (monitor.py, lines 110-115)\<close>

text \<open>
  The imaging library is not part of the program, so its four operations are parameters:
  \<open>ImageOps.grayscale\<close>, the attribute \<open>size\<close>, \<open>resize\<close> with the Lanczos filter and
  \<open>filter(ImageFilter.SHARPEN)\<close>. The three calls may raise, and \<open>preprocess_for_ocr\<close>
  has no handler.
\<close>

record 'img pil =
  grayscale :: "'img \<Rightarrow> raised + 'img"
  size_of :: "'img \<Rightarrow> int \<times> int"
  resize_lanczos :: "'img \<Rightarrow> int \<times> int \<Rightarrow> raised + 'img"
  filter_sharpen :: "'img \<Rightarrow> raised + 'img"

definition preprocess_for_ocr :: "'img pil \<Rightarrow> 'img \<Rightarrow> int \<Rightarrow> raised + 'img" where
  "preprocess_for_ocr lib img scale =
     (case grayscale lib img of
        Inl e \<Rightarrow> Inl e
      | Inr gray \<Rightarrow>
          (let (w, h) = size_of lib gray
           in case resize_lanczos lib gray (w * scale, h * scale) of
                Inl e \<Rightarrow> Inl e
              | Inr gray \<Rightarrow> filter_sharpen lib gray))"

text \<open>
  What is assumed of the library, about the images its calls return and never about
  whether they return: converting and filtering keep the size, and resizing gives an
  image of the size asked for.
\<close>

definition pil_sizes :: "'img pil \<Rightarrow> bool" where
  "pil_sizes lib \<longleftrightarrow>
     (\<forall>i j. grayscale lib i = Inr j \<longrightarrow> size_of lib j = size_of lib i) \<and>
     (\<forall>i j. filter_sharpen lib i = Inr j \<longrightarrow> size_of lib j = size_of lib i) \<and>
     (\<forall>i s j. resize_lanczos lib i s = Inr j \<longrightarrow> size_of lib j = s)"

text \<open>
  An instance of the library for concrete runs, in which an image is its size alone.
  Its \<open>resize\<close> copies an image asked to keep its size, refuses a side that does not fit
  a C \<open>int\<close> with \<open>OverflowError\<close> and a side below 1 with \<open>ValueError\<close>.
\<close>

definition int_sized_images :: "(int \<times> int) pil" where
  "int_sized_images =
     \<lparr>grayscale = (\<lambda>i. Inr i), size_of = (\<lambda>i. i),
      resize_lanczos =
        (\<lambda>i s. if s = i then Inr i
                else if 2147483648 \<le> fst s \<or> 2147483648 \<le> snd s \<or>
                        fst s < - 2147483648 \<or> snd s < - 2147483648
                     then Inl (Exception ''OverflowError'')
                else if fst s < 1 \<or> snd s < 1 then Inl (Exception ''ValueError'')
                else Inr s),
      filter_sharpen = (\<lambda>i. Inr i)\<rparr>"

section \<open>\<open>ocr_image\<close> (monitor.py, lines 118-126)\<close>

text \<open>
  The engine call \<open>pytesseract.image_to_string\<close> is a parameter; its first argument is
  the module-level path of the binary, which \<open>ocr_image\<close> overwrites when
  \<open>tesseract_cmd\<close> is truthy. The result pairs what \<open>ocr_image\<close> returns or lets through
  with the path left behind.
\<close>

type_synonym 'img engine = "string \<Rightarrow> 'img \<Rightarrow> string \<Rightarrow> string \<Rightarrow> raised + str"

definition set_tesseract_cmd :: "string \<Rightarrow> string option \<Rightarrow> string" where
  "set_tesseract_cmd current tesseract_cmd =
     (case tesseract_cmd of
        Some c \<Rightarrow> if c \<noteq> [] then c else current
      | None \<Rightarrow> current)"

definition ocr_image ::
  "'img engine \<Rightarrow> string \<Rightarrow> 'img \<Rightarrow> string \<Rightarrow> string option \<Rightarrow> string
     \<Rightarrow> (raised + str) \<times> string" where
  "ocr_image image_to_string current img ocr_lang tesseract_cmd tesseract_config =
     (let cmd = set_tesseract_cmd current tesseract_cmd in
      (case image_to_string cmd img ocr_lang tesseract_config of
         Inr text \<Rightarrow> Inr text
       | Inl (Exception e) \<Rightarrow> Inr []
       | Inl (BaseException e) \<Rightarrow> Inl (BaseException e),
       cmd))"

text \<open>
  An engine for concrete runs: it fails on image 0, is interrupted from the keyboard on
  image 1, and reads a line of text from every other image.
\<close>

definition sample_engine :: "nat engine" where
  "sample_engine cmd img lang config =
     (if img = 0 then Inl (Exception ''TesseractError'')
      else if img = 1 then Inl (BaseException ''KeyboardInterrupt'')
      else Inr (lit ''Veiled\<newline>''))"

section \<open>The alert gate of \<open>main\<close> (monitor.py, lines 181 and 253-263)\<close>

text \<open>
  Times and the cooldown are Python floats, modelled as real numbers. \<open>last_alert\<close>
  starts at 0. The gate takes the cooldown, the clock reading \<open>now\<close>, the matches and
  \<open>last_alert\<close>, and returns the new \<open>last_alert\<close> with the events of this pass.
\<close>

definition last_alert_init :: real where
  "last_alert_init = 0"

definition main_alert_gate :: "real \<Rightarrow> real \<Rightarrow> str list \<Rightarrow> real \<Rightarrow> real \<times> event list" where
  "main_alert_gate cooldown now matched last_alert =
     (if matched \<noteq> [] then
        (if now - last_alert > cooldown
         then (now, [Notification (lit ''PathOfOCR: Desired Craft'')
                       (lit ''Detected: '' @ join (lit '', '') matched)])
         else (last_alert, []))
      else (last_alert, []))"

section \<open>Properties of the string operations\<close>

lemma py_in_sublist: "py_in sub t \<longleftrightarrow> sublist sub t"
  by (induction t) (simp_all add: sublist_Cons_right)

lemma py_in_append: "py_in sub t \<longleftrightarrow> (\<exists>ps ss. t = ps @ sub @ ss)"
  by (simp add: py_in_sublist sublist_def)

lemma lower_eq_Nil: "lower L s = [] \<longleftrightarrow> s = []"
  using lower [of L] by simp

lemma lower_Nil: "lower L [] = []"
  by (simp add: lower_eq_Nil)

lemma lower_ascii: "\<forall>c\<in>set s. c < 128 \<Longrightarrow> lower L s = map ascii_lower s"
  using lower [of L] by simp

lemma lower_latin1_str_lower: "lower latin1_str_lower s = map latin1_lower s"
proof -
  have "map latin1_lower s = map ascii_lower s" if "\<forall>c\<in>set s. c < 128" for s
    using that by (intro map_cong) (auto simp: latin1_lower_def ascii_lower_def)
  then show ?thesis
    by (simp add: latin1_str_lower_def Abs_str_lower_inverse)
qed

lemma lower_lit_examples:
  "lower L (lit ''The VEILED suffix appears'') = lit ''the veiled suffix appears''"
  "lower L (lit ''veiled'') = lit ''veiled''"
  "lower L (lit ''foo'') = lit ''foo''"
  by (simp_all add: lower_ascii lit_def ascii_lower_def)

section \<open>Matching\<close>

lemma matches_loop_filter:
  "matches_loop L t ds acc =
     acc @ filter (\<lambda>item. item \<noteq> [] \<and> py_in (lower L item) t) ds"
  by (induction ds arbitrary: acc) simp_all

lemma matches_desired_filter:
  "matches_desired L text ds =
     (if text = [] then []
      else filter (\<lambda>item. item \<noteq> [] \<and> py_in (lower L item) (lower L text)) ds)"
  by (simp add: matches_desired_def matches_loop_filter)

text \<open>
  C1: for every text and every list of non-empty phrases, \<open>matches_desired\<close> returns
  exactly the phrases whose lower-cased form is a contiguous part of the lower-cased text,
  in the order of the list; and on the text \<open>The VEILED suffix appears\<close> with the phrases
  \<open>veiled\<close>, \<open>foo\<close> it returns \<open>veiled\<close> alone. This holds whatever \<open>str.lower()\<close> does
  beyond ASCII.
\<close>

theorem matches_desired_exact:
  assumes "\<forall>item\<in>set desired_list. item \<noteq> []"
  shows "matches_desired L text desired_list =
           filter (\<lambda>item. sublist (lower L item) (lower L text)) desired_list \<and>
         matches_desired L (lit ''The VEILED suffix appears'') [lit ''veiled'', lit ''foo''] =
           [lit ''veiled'']"
proof
  show "matches_desired L text desired_list =
          filter (\<lambda>item. sublist (lower L item) (lower L text)) desired_list"
  proof (cases "text = []")
    case True
    have "filter (\<lambda>item. sublist (lower L item) (lower L text)) desired_list = []"
      using assms True by (simp add: lower_eq_Nil lower_Nil filter_empty_conv)
    with True show ?thesis by (simp add: matches_desired_filter)
  next
    case False
    have "filter (\<lambda>item. item \<noteq> [] \<and> py_in (lower L item) (lower L text)) desired_list =
          filter (\<lambda>item. sublist (lower L item) (lower L text)) desired_list"
      using assms by (intro filter_cong) (auto simp: py_in_sublist)
    with False show ?thesis by (simp add: matches_desired_filter)
  qed
next
  have "lit ''The VEILED suffix appears'' \<noteq> []" "lit ''veiled'' \<noteq> []" "lit ''foo'' \<noteq> []"
    by (simp_all add: lit_def)
  moreover have "py_in (lit ''veiled'') (lit ''the veiled suffix appears'')"
    and "\<not> py_in (lit ''foo'') (lit ''the veiled suffix appears'')"
    by (simp_all add: lit_def)
  ultimately
  show "matches_desired L (lit ''The VEILED suffix appears'') [lit ''veiled'', lit ''foo''] =
          [lit ''veiled'']"
    by (simp add: matches_desired_def lower_lit_examples)
qed

text \<open>
  Three runs of C1: the example of the specification; a text in which the phrases occur
  in the opposite order to the list, where the result keeps the order of the list; and
  the text of U+00C9 and \<open>CLAT\<close> with the phrase of U+00E9 and \<open>clat\<close>, which is found.
\<close>

theorem matches_desired_exact_witness:
  "matches_desired latin1_str_lower (lit ''The VEILED suffix appears'')
     [lit ''veiled'', lit ''foo''] = [lit ''veiled''] \<and>
   filter (\<lambda>item. sublist (lower latin1_str_lower item)
                     (lower latin1_str_lower (lit ''The VEILED suffix appears'')))
     [lit ''veiled'', lit ''foo''] = [lit ''veiled''] \<and>
   matches_desired latin1_str_lower (lit ''Foo, then Veiled'') [lit ''veiled'', lit ''foo''] =
     [lit ''veiled'', lit ''foo''] \<and>
   matches_desired latin1_str_lower [201, 67, 76, 65, 84] [[233, 99, 108, 97, 116]] =
     [[233, 99, 108, 97, 116]]"
proof -
  have nonempty: "\<forall>item\<in>set [lit ''veiled'', lit ''foo'']. item \<noteq> []"
    by (simp add: lit_def)
  have nonempty': "\<forall>item\<in>set [[233, 99, 108, 97, 116 :: nat]]. item \<noteq> []"
    by simp
  have rhs: "filter (\<lambda>item. sublist (lower latin1_str_lower item)
                     (lower latin1_str_lower (lit ''The VEILED suffix appears'')))
     [lit ''veiled'', lit ''foo''] = [lit ''veiled'']"
    by (simp add: lower_latin1_str_lower latin1_lower_def lit_def sublist_code)
  have rhs2: "filter (\<lambda>item. sublist (lower latin1_str_lower item)
                     (lower latin1_str_lower (lit ''Foo, then Veiled'')))
     [lit ''veiled'', lit ''foo''] = [lit ''veiled'', lit ''foo'']"
    by (simp add: lower_latin1_str_lower latin1_lower_def lit_def sublist_code)
  have rhs3: "filter (\<lambda>item. sublist (lower latin1_str_lower item)
                     (lower latin1_str_lower [201, 67, 76, 65, 84]))
     [[233, 99, 108, 97, 116]] = [[233, 99, 108, 97, 116]]"
    by (simp add: lower_latin1_str_lower latin1_lower_def sublist_code)
  from matches_desired_exact [OF nonempty, of latin1_str_lower "lit ''The VEILED suffix appears''"]
       matches_desired_exact [OF nonempty, of latin1_str_lower "lit ''Foo, then Veiled''"]
       matches_desired_exact [OF nonempty', of latin1_str_lower "[201, 67, 76, 65, 84]"]
       rhs rhs2 rhs3
  show ?thesis by simp
qed

text \<open>
  C10: for every non-empty text and every list of desired outcomes, the empty string is
  never in the result of \<open>matches_desired\<close>, although the empty string is a contiguous
  part of every text.
\<close>

theorem matches_desired_skips_empty:
  "text \<noteq> [] \<Longrightarrow>
     [] \<notin> set (matches_desired L text desired_list) \<and> sublist (lower L []) (lower L text)"
  by (simp add: matches_desired_filter lower_Nil)

text \<open>A run of C10: the empty entry is dropped and the other entry is kept.\<close>

theorem matches_desired_skips_empty_witness:
  "lit ''abc'' \<noteq> [] \<and>
   [] \<notin> set (matches_desired latin1_str_lower (lit ''abc'') [[], lit ''B'']) \<and>
   sublist (lower latin1_str_lower []) (lower latin1_str_lower (lit ''abc'')) \<and>
   matches_desired latin1_str_lower (lit ''abc'') [[], lit ''B''] = [lit ''B'']"
proof -
  have ne: "lit ''abc'' \<noteq> []"
    by (simp add: lit_def)
  have "matches_desired latin1_str_lower (lit ''abc'') [[], lit ''B''] = [lit ''B'']"
    by (simp add: matches_desired_def lower_latin1_str_lower latin1_lower_def lit_def)
  with matches_desired_skips_empty [OF ne, of latin1_str_lower "[[], lit ''B'']"] ne
  show ?thesis by simp
qed

text \<open>
  C9: \<open>findMatches(text, [])\<close> is the empty list for every text, and
  \<open>findMatches("", anyList)\<close> is the empty list for every list of desired outcomes.
\<close>

theorem matches_desired_empty:
  "matches_desired L text [] = [] \<and> matches_desired L [] desired_list = []"
  by (simp add: matches_desired_def)

section \<open>Region resolution\<close>






text \<open>
  C5: when \<open>monitor_region\<close> is present in the configuration, the region choice of
  \<open>main\<close> returns it and makes no window query, whatever windows exist. A region
  carries its four keys, so as a dict it is not empty.
\<close>

theorem fixed_region_first:
  "r \<noteq> [] \<Longrightarrow> main_resolve_region L (Some r) window_title win32gui = (Inr (Some r), [])"
  by (simp add: main_resolve_region_def dict_truthy_def)

text \<open>
  A run of C5 in which a window with a matching title exists: the fixed region is
  returned with no query, although the window search would have found the window.
\<close>

theorem fixed_region_first_witness:
  "main_resolve_region latin1_str_lower
     (Some [(''left'', 0), (''top'', 0), (''width'', 100), (''height'', 50)])
     (lit ''Path of Exile'') (Some [game_window]) =
     (Inr (Some [(''left'', 0), (''top'', 0), (''width'', 100), (''height'', 50)]), []) \<and>
   find_window_rect latin1_str_lower (Some [game_window]) (lit ''Path of Exile'') =
     (Inr (Some [(''left'', 10), (''top'', 20), (''width'', 800), (''height'', 600)]),
      [WindowQuery])"
  using fixed_region_first
          [of "[(''left'', 0), (''top'', 0), (''width'', 100), (''height'', 50)]"
              latin1_str_lower "lit ''Path of Exile''" "Some [game_window]"]
  by (simp add: find_window_rect_def enum_callback_def game_window_def
        lower_latin1_str_lower latin1_lower_def lit_def)




section \<open>Preprocessing\<close>

text \<open>
  C4 as stated fails: a scale of \<open>2^31\<close> is an integer of at least 1, and on an image of
  one pixel it asks \<open>resize\<close> for a side that does not fit a C \<open>int\<close>; \<open>resize\<close> raises
  and \<open>preprocess_for_ocr\<close> returns no image.
\<close>

theorem preprocess_for_ocr_overflow_counterexample:
  "(1::int) \<le> 2147483648 \<and>
   size_of int_sized_images (1, 1) = (1, 1) \<and>
   preprocess_for_ocr int_sized_images (1, 1) 2147483648 = Inl (Exception ''OverflowError'')"
  by (simp add: preprocess_for_ocr_def int_sized_images_def)

text \<open>
  C4, amended: for every image of size \<open>(w, h)\<close> and every integer scale, whenever
  \<open>preprocess_for_ocr\<close> returns an image, its size is exactly \<open>(w * scale, h * scale)\<close>;
  it returns one whenever the three library calls return; and when \<open>resize\<close> raises,
  \<open>preprocess_for_ocr\<close> raises the same.
\<close>

theorem preprocess_for_ocr_size:
  assumes "pil_sizes lib" and "size_of lib img = (w, h)"
  shows "(preprocess_for_ocr lib img scale = Inr out \<longrightarrow>
            size_of lib out = (w * scale, h * scale)) \<and>
         (grayscale lib img = Inr gray \<and>
          resize_lanczos lib gray (w * scale, h * scale) = Inr resized \<and>
          filter_sharpen lib resized = Inr sharp \<longrightarrow>
            preprocess_for_ocr lib img scale = Inr sharp \<and>
            size_of lib sharp = (w * scale, h * scale)) \<and>
         (grayscale lib img = Inr gray \<and>
          resize_lanczos lib gray (w * scale, h * scale) = Inl e \<longrightarrow>
            preprocess_for_ocr lib img scale = Inl e)"
proof -
  from assms(1) have gray: "\<And>i j. grayscale lib i = Inr j \<Longrightarrow> size_of lib j = size_of lib i"
    and sharp: "\<And>i j. filter_sharpen lib i = Inr j \<Longrightarrow> size_of lib j = size_of lib i"
    and rs: "\<And>i s j. resize_lanczos lib i s = Inr j \<Longrightarrow> size_of lib j = s"
    by (auto simp: pil_sizes_def)
  have run: "preprocess_for_ocr lib img scale = filter_sharpen lib r"
    if "grayscale lib img = Inr g" and "resize_lanczos lib g (w * scale, h * scale) = Inr r"
    for g r
    using that gray [OF that(1)] assms(2) by (simp add: preprocess_for_ocr_def)
  have fail: "preprocess_for_ocr lib img scale = Inl e'"
    if "grayscale lib img = Inr g" and "resize_lanczos lib g (w * scale, h * scale) = Inl e'"
    for g e'
    using that gray [OF that(1)] assms(2) by (simp add: preprocess_for_ocr_def)
  have size: "size_of lib o' = (w * scale, h * scale)"
    if "grayscale lib img = Inr g" and "resize_lanczos lib g (w * scale, h * scale) = Inr r"
      and "filter_sharpen lib r = Inr o'" for g r o'
    using sharp [OF that(3)] rs [OF that(2)] by simp
  have first: "size_of lib out = (w * scale, h * scale)"
    if ret: "preprocess_for_ocr lib img scale = Inr out"
  proof -
    from ret obtain g where g: "grayscale lib img = Inr g"
      by (auto simp: preprocess_for_ocr_def split: sum.splits)
    with ret gray [OF g] assms(2) obtain r
      where r: "resize_lanczos lib g (w * scale, h * scale) = Inr r"
      by (auto simp: preprocess_for_ocr_def split: sum.splits)
    from ret run [OF g r] have "filter_sharpen lib r = Inr out" by simp
    from size [OF g r this] show ?thesis .
  qed
  show ?thesis
    using first run size fail by auto
qed

text \<open>
  Two runs of the amended C4: an image of 100 by 50 pixels, scaled by 2, comes out 200
  by 100; an image of one pixel, scaled by \<open>2^31\<close>, raises.
\<close>

theorem preprocess_for_ocr_size_witness:
  "preprocess_for_ocr int_sized_images (100, 50) 2 = Inr (200, 100) \<and>
   size_of int_sized_images (200, 100) = (100 * 2, 50 * 2) \<and>
   preprocess_for_ocr int_sized_images (1, 1) 2147483648 = Inl (Exception ''OverflowError'')"
proof -
  have lib: "pil_sizes int_sized_images"
    by (auto simp: pil_sizes_def int_sized_images_def split: if_splits)
  have sz: "size_of int_sized_images (100, 50) = (100, 50)"
    and sz1: "size_of int_sized_images (1, 1) = (1, 1)"
    by (simp_all add: int_sized_images_def)
  have calls: "grayscale int_sized_images (100, 50) = Inr (100, 50)"
    "resize_lanczos int_sized_images (100, 50) (100 * 2, 50 * 2) = Inr (200, 100)"
    "filter_sharpen int_sized_images (200, 100) = Inr (200, 100)"
    "grayscale int_sized_images (1, 1) = Inr (1, 1)"
    "resize_lanczos int_sized_images (1, 1) (1 * 2147483648, 1 * 2147483648) =
       Inl (Exception ''OverflowError'')"
    by (simp_all add: int_sized_images_def)
  from preprocess_for_ocr_size [OF lib sz, where scale = 2 and out = "(200, 100)"
         and gray = "(100, 50)" and resized = "(200, 100)" and sharp = "(200, 100)"]
       preprocess_for_ocr_size [OF lib sz1, where scale = 2147483648 and gray = "(1, 1)"
         and e = "Exception ''OverflowError''"]
       calls
  show ?thesis by simp
qed

section \<open>Recognition\<close>

text \<open>
  C7: for every image and engine, if the engine call fails, that is, raises an instance
  of \<open>Exception\<close>, \<open>ocr_image\<close> returns the empty string and raises nothing; if the call
  returns a text, \<open>ocr_image\<close> returns that text unchanged. What is raised outside
  \<open>Exception\<close> is no failure of the engine (the interrupt from the keyboard stops the
  program) and passes through \<open>ocr_image\<close>.
\<close>

theorem ocr_image_absorbs_failure:
  "(image_to_string (set_tesseract_cmd current tesseract_cmd) img ocr_lang tesseract_config
      = Inl (Exception e) \<longrightarrow>
    fst (ocr_image image_to_string current img ocr_lang tesseract_cmd tesseract_config)
      = Inr []) \<and>
   (image_to_string (set_tesseract_cmd current tesseract_cmd) img ocr_lang tesseract_config
      = Inr text \<longrightarrow>
    fst (ocr_image image_to_string current img ocr_lang tesseract_cmd tesseract_config)
      = Inr text) \<and>
   (image_to_string (set_tesseract_cmd current tesseract_cmd) img ocr_lang tesseract_config
      = Inl (BaseException b) \<longrightarrow>
    fst (ocr_image image_to_string current img ocr_lang tesseract_cmd tesseract_config)
      = Inl (BaseException b))"
  by (simp add: ocr_image_def)

text \<open>
  Three runs of C7: a failing engine call, a call that returns a line of text, and a
  call interrupted from the keyboard.
\<close>

theorem ocr_image_absorbs_failure_witness:
  "fst (ocr_image sample_engine ''tesseract'' 0 ''eng'' None ''--psm 6'') = Inr [] \<and>
   fst (ocr_image sample_engine ''tesseract'' 2 ''eng'' None ''--psm 6'') =
     Inr (lit ''Veiled\<newline>'') \<and>
   fst (ocr_image sample_engine ''tesseract'' 1 ''eng'' None ''--psm 6'') =
     Inl (BaseException ''KeyboardInterrupt'')"
  using ocr_image_absorbs_failure
          [of sample_engine "''tesseract''" None 0 "''eng''" "''--psm 6''"
              "''TesseractError''"]
        ocr_image_absorbs_failure
          [of sample_engine "''tesseract''" None 2 "''eng''" "''--psm 6''" _
              "lit ''Veiled\<newline>''"]
        ocr_image_absorbs_failure
          [of sample_engine "''tesseract''" None 1 "''eng''" "''--psm 6''" _ _
              "''KeyboardInterrupt''"]
  by (simp add: sample_engine_def set_tesseract_cmd_def)

section \<open>Alert gate\<close>

text \<open>
  C8: in a cycle whose match list is empty, the gate calls \<open>notify\<close> not at all and
  leaves \<open>last_alert\<close> as it was, for every \<open>last_alert\<close>, cooldown and clock reading.
\<close>

theorem empty_match_no_alert:
  "main_alert_gate cooldown now [] last_alert = (last_alert, [])"
  by (simp add: main_alert_gate_def)

text \<open>
  C3 as stated fails: \<open>last_alert\<close> starts at 0, not at a value set apart for "never",
  so with a cooldown of 5 a first match at time 3 is held back and \<open>last_alert\<close> stays 0.
\<close>

theorem first_match_within_cooldown_counterexample:
  "(0::real) \<le> 5 \<and> (0::real) \<le> 3 \<and>
   main_alert_gate 5 3 [lit ''veiled''] last_alert_init = (0, [])"
  by (simp add: main_alert_gate_def last_alert_init_def)

text \<open>
  C3, amended: while \<open>last_alert\<close> still has its initial value 0, a non-empty match
  list makes the gate call \<open>notify\<close> and set \<open>last_alert\<close> to \<open>now\<close> exactly when
  \<open>now\<close> exceeds the cooldown; otherwise nothing is sent and \<open>last_alert\<close> stays 0.
\<close>

theorem first_match_fires_iff:
  "matched \<noteq> [] \<Longrightarrow>
     main_alert_gate cooldown now matched last_alert_init =
       (if cooldown < now
        then (now, [Notification (lit ''PathOfOCR: Desired Craft'')
                      (lit ''Detected: '' @ join (lit '', '') matched)])
        else (last_alert_init, []))"
  by (simp add: main_alert_gate_def last_alert_init_def)

text \<open>
  Two runs of the amended C3: a clock reading in Unix time, which exceeds the cooldown,
  and a clock reading equal to the cooldown, which does not.
\<close>

theorem first_match_fires_iff_witness:
  "[lit ''veiled''] \<noteq> [] \<and>
   main_alert_gate 1 1700000000 [lit ''veiled''] last_alert_init =
     (1700000000, [Notification (lit ''PathOfOCR: Desired Craft'') (lit ''Detected: veiled'')]) \<and>
   main_alert_gate 2 2 [lit ''veiled''] last_alert_init = (0, [])"
  using first_match_fires_iff [of "[lit ''veiled'']" 1 1700000000]
        first_match_fires_iff [of "[lit ''veiled'']" 2 2]
  by (simp add: last_alert_init_def lit_def)

text \<open>
  C2 as stated fails at its first step: with a cooldown of 1 and \<open>last_alert\<close> at its
  initial value 0, a match at time 0 sends nothing, since \<open>0 - 0 > 1\<close> is false.
\<close>

theorem cooldown_at_time_zero_counterexample:
  "main_alert_gate 1 0 [lit ''veiled''] last_alert_init = (last_alert_init, [])"
  by (simp add: main_alert_gate_def last_alert_init_def)

text \<open>
  C2, amended: with a cooldown of 1 and \<open>last_alert\<close> at its initial value, a match at
  a time \<open>t\<close> greater than 1 is sent and sets \<open>last_alert\<close> to \<open>t\<close>; a further match at
  \<open>t + 0.5\<close> is held back and leaves \<open>last_alert\<close> at \<open>t\<close>; a further match at
  \<open>t + 1.2\<close> is sent and sets \<open>last_alert\<close> to \<open>t + 1.2\<close>.
\<close>

theorem cooldown_fire_suppress_fire:
  assumes "1 < t" and "m1 \<noteq> []" and "m2 \<noteq> []" and "m3 \<noteq> []"
  shows "main_alert_gate 1 t m1 last_alert_init =
           (t, [Notification (lit ''PathOfOCR: Desired Craft'')
                  (lit ''Detected: '' @ join (lit '', '') m1)]) \<and>
         main_alert_gate 1 (t + 1/2) m2 t = (t, []) \<and>
         main_alert_gate 1 (t + 6/5) m3 t =
           (t + 6/5, [Notification (lit ''PathOfOCR: Desired Craft'')
                        (lit ''Detected: '' @ join (lit '', '') m3)])"
  using assms by (simp add: main_alert_gate_def last_alert_init_def)

text \<open>A run of the amended C2 from time 10.\<close>

theorem cooldown_fire_suppress_fire_witness:
  "main_alert_gate 1 10 [lit ''veiled''] last_alert_init =
     (10, [Notification (lit ''PathOfOCR: Desired Craft'') (lit ''Detected: veiled'')]) \<and>
   main_alert_gate 1 (10 + 1/2) [lit ''veiled'', lit ''foo''] 10 = (10, []) \<and>
   main_alert_gate 1 (10 + 6/5) [lit ''foo''] 10 =
     (10 + 6/5, [Notification (lit ''PathOfOCR: Desired Craft'') (lit ''Detected: foo'')])"
  using cooldown_fire_suppress_fire
          [of 10 "[lit ''veiled'']" "[lit ''veiled'', lit ''foo'']" "[lit ''foo'']"]
  by (simp add: lit_def)

end
